theory Spec2Isabelle
  imports Complex_Main "HOL-Library.Sublist" "HOL-Library.Char_ord" "HOL-Library.List_Lexorder"
begin

section \<open>The launch table\<close>

text \<open>
  The dashboard reads one CSV file into a pandas data frame, \<^verbatim>\<open>spacex_df\<close>, and both
  callbacks read that frame. A row carries the three columns the callbacks use:
  \<^verbatim>\<open>'Launch Site'\<close> (a string), \<^verbatim>\<open>'Payload Mass (kg)'\<close> (a float, where a missing cell
  is NaN) and \<^verbatim>\<open>'class'\<close> (an integer). A float is a real number or NaN; NaN is \<open>None\<close>.
  The frame also records the names of its columns, which \<^verbatim>\<open>update_scatter_chart\<close> probes
  for the two optional booster columns.
\<close>

type_synonym pyfloat = "real option"

record launch_row =
  Launch_Site :: string
  Payload_Mass :: pyfloat
  class_col :: int

record dataframe =
  columns :: "string list"
  rows :: "launch_row list"

datatype error = ValueError

subsection \<open>Series operations\<close>

text \<open>Comparisons of floats: every comparison with NaN is false.\<close>

definition float_ge :: "pyfloat \<Rightarrow> pyfloat \<Rightarrow> bool" where
  "float_ge a b = (case a of None \<Rightarrow> False | Some x \<Rightarrow> (case b of None \<Rightarrow> False | Some y \<Rightarrow> y \<le> x))"

definition float_le :: "pyfloat \<Rightarrow> pyfloat \<Rightarrow> bool" where
  "float_le a b = (case a of None \<Rightarrow> False | Some x \<Rightarrow> (case b of None \<Rightarrow> False | Some y \<Rightarrow> x \<le> y))"

definition series_ge :: "pyfloat list \<Rightarrow> pyfloat \<Rightarrow> bool list" where
  "series_ge col v = map (\<lambda>x. float_ge x v) col"

definition series_le :: "pyfloat list \<Rightarrow> pyfloat \<Rightarrow> bool list" where
  "series_le col v = map (\<lambda>x. float_le x v) col"

definition series_eq :: "string list \<Rightarrow> string \<Rightarrow> bool list" where
  "series_eq col v = map (\<lambda>x. x = v) col"

definition series_and :: "bool list \<Rightarrow> bool list \<Rightarrow> bool list" where
  "series_and a b = map (\<lambda>(x, y). x \<and> y) (zip a b)"

text \<open>Boolean indexing \<^verbatim>\<open>df[mask]\<close>: the rows whose mask entry is true, in the frame's order.\<close>

definition bool_index :: "'a list \<Rightarrow> bool list \<Rightarrow> 'a list" where
  "bool_index xs bs = map fst (filter snd (zip xs bs))"

text \<open>\<^verbatim>\<open>Series.min()\<close> and \<^verbatim>\<open>Series.max()\<close> skip NaN, and are NaN when nothing is left.\<close>

definition dropna :: "pyfloat list \<Rightarrow> real list" where
  "dropna col = concat (map (\<lambda>x. case x of None \<Rightarrow> [] | Some v \<Rightarrow> [v]) col)"

definition series_min :: "pyfloat list \<Rightarrow> pyfloat" where
  "series_min col = (case dropna col of [] \<Rightarrow> None | v # vs \<Rightarrow> Some (fold min vs v))"

definition series_max :: "pyfloat list \<Rightarrow> pyfloat" where
  "series_max col = (case dropna col of [] \<Rightarrow> None | v # vs \<Rightarrow> Some (fold max vs v))"

definition min_payload :: "dataframe \<Rightarrow> pyfloat" where
  "min_payload spacex_df = series_min (map Payload_Mass (rows spacex_df))"

definition max_payload :: "dataframe \<Rightarrow> pyfloat" where
  "max_payload spacex_df = series_max (map Payload_Mass (rows spacex_df))"

section \<open>The scatter callback\<close>

text \<open>
  The \<^verbatim>\<open>payload_range\<close> argument comes from the slider. The callback tests whether it is
  a list or a tuple and unpacks it into two names, which raises \<^verbatim>\<open>ValueError\<close> unless it
  has exactly two elements; any other object is replaced by the bounds of the table.
\<close>

datatype pyarg = PyList "pyfloat list" | PyTuple "pyfloat list" | PyOther

fun unpack2 :: "pyfloat list \<Rightarrow> error + (pyfloat \<times> pyfloat)" where
  "unpack2 [a, b] = Inr (a, b)"
| "unpack2 _ = Inl ValueError"

definition unpack_range :: "dataframe \<Rightarrow> pyarg \<Rightarrow> error + (pyfloat \<times> pyfloat)" where
  "unpack_range spacex_df payload_range =
     (case payload_range of
        PyList xs \<Rightarrow> unpack2 xs
      | PyTuple xs \<Rightarrow> unpack2 xs
      | PyOther \<Rightarrow> Inr (min_payload spacex_df, max_payload spacex_df))"

text \<open>The figure specification handed to the plotting library.\<close>

record scatter_figure =
  sc_data :: "launch_row list"
  sc_x :: string
  sc_y :: string
  sc_color :: "string option"
  sc_hover_data :: "string list"
  sc_title :: string
  sc_labels :: "(string \<times> string) list"
  sc_margin :: "(string \<times> int) list"
  sc_ytickvals :: "int list"
  sc_yaxis_title :: "string option"
  sc_xaxis_title :: "string option"

definition px_scatter ::
  "launch_row list \<Rightarrow> string \<Rightarrow> string \<Rightarrow> string option \<Rightarrow> string list \<Rightarrow> string \<Rightarrow>
   (string \<times> string) list \<Rightarrow> scatter_figure" where
  "px_scatter df x y color hover_data title labels =
     \<lparr>sc_data = df, sc_x = x, sc_y = y, sc_color = color, sc_hover_data = hover_data,
      sc_title = title, sc_labels = labels, sc_margin = [], sc_ytickvals = [],
      sc_yaxis_title = None, sc_xaxis_title = None\<rparr>"

definition color_column :: "dataframe \<Rightarrow> string option" where
  "color_column spacex_df =
     (if ''Booster Version Category'' \<in> set (columns spacex_df) then Some ''Booster Version Category''
      else if ''Booster Version'' \<in> set (columns spacex_df) then Some ''Booster Version''
      else None)"

text \<open>Python's truth value of \<^verbatim>\<open>color_col\<close>: \<^verbatim>\<open>None\<close> and the empty string are false.\<close>

definition truthy :: "string option \<Rightarrow> bool" where
  "truthy c = (case c of None \<Rightarrow> False | Some s \<Rightarrow> s \<noteq> [])"

definition update_scatter_chart :: "dataframe \<Rightarrow> string \<Rightarrow> pyarg \<Rightarrow> error + scatter_figure" where
  "update_scatter_chart spacex_df selected_site payload_range =
     (case unpack_range spacex_df payload_range of
        Inl e \<Rightarrow> Inl e
      | Inr (low, high) \<Rightarrow>
          (let mask = series_and (series_ge (map Payload_Mass (rows spacex_df)) low)
                                 (series_le (map Payload_Mass (rows spacex_df)) high);
               filtered_df = bool_index (rows spacex_df) mask;
               color_col = color_column spacex_df;
               scatter_df = (if selected_site = ''ALL'' then filtered_df
                             else bool_index filtered_df
                                    (series_eq (map Launch_Site filtered_df) selected_site));
               title = (if selected_site = ''ALL'' then ''Payload vs Outcome for all sites''
                        else ''Payload vs Outcome for '' @ selected_site);
               fig = (if truthy color_col
                      then px_scatter scatter_df ''Payload Mass (kg)'' ''class'' color_col
                             [''Launch Site'', ''Payload Mass (kg)''] title
                             [(''class'', ''Launch Outcome (1=Success, 0=Failure)'')]
                      else px_scatter scatter_df ''Payload Mass (kg)'' ''class'' None
                             [''Launch Site'', ''Payload Mass (kg)''] title
                             [(''class'', ''Launch Outcome (1=Success, 0=Failure)'')])
           in Inr (fig\<lparr>sc_margin := [(''t'', 50), (''b'', 20), (''l'', 20), (''r'', 20)],
                       sc_ytickvals := [0, 1],
                       sc_yaxis_title := Some ''Launch Outcome (class)'',
                       sc_xaxis_title := Some ''Payload Mass (kg)''\<rparr>)))"

section \<open>The pie callback\<close>

record pie_figure =
  pie_frame :: "(string \<times> int) list"
  pie_names :: string
  pie_values :: string
  pie_title :: string
  pie_textinfo :: "string option"
  pie_margin :: "(string \<times> int) list"

definition px_pie :: "(string \<times> int) list \<Rightarrow> string \<Rightarrow> string \<Rightarrow> string \<Rightarrow> pie_figure" where
  "px_pie df names values title =
     \<lparr>pie_frame = df, pie_names = names, pie_values = values, pie_title = title,
      pie_textinfo = None, pie_margin = []\<rparr>"

text \<open>
  \<^verbatim>\<open>groupby('Launch Site')['class'].sum().reset_index()\<close>: one row per distinct site, the
  sites in ascending order (\<^verbatim>\<open>groupby\<close> sorts its keys), each with the sum of its
  \<^verbatim>\<open>class\<close> cells.
\<close>

definition groupby_sum :: "launch_row list \<Rightarrow> (string \<times> int) list" where
  "groupby_sum rs =
     map (\<lambda>s. (s, sum_list (map class_col (filter (\<lambda>r. Launch_Site r = s) rs))))
       (sort (remdups (map Launch_Site rs)))"

text \<open>
  The index of the series that \<^verbatim>\<open>value_counts\<close> returns holds the integers of the column;
  \<^verbatim>\<open>rename\<close> replaces some of them by strings, so an index label is either.
\<close>

datatype index_label = IntLabel int | StrLabel string

text \<open>
  \<^verbatim>\<open>value_counts()\<close>: the distinct values in the order of their first occurrence, each
  with the number of its occurrences, sorted by descending count.
\<close>

definition value_counts :: "int list \<Rightarrow> (index_label \<times> int) list" where
  "value_counts xs =
     sort_key (\<lambda>(l, c). - c) (map (\<lambda>v. (IntLabel v, int (count_list xs v))) (rev (remdups (rev xs))))"

text \<open>\<^verbatim>\<open>rename(index=m)\<close>: a label that is a key of the dictionary is replaced, any other is kept.\<close>

definition relabel :: "(index_label \<rightharpoonup> index_label) \<Rightarrow> index_label \<Rightarrow> index_label" where
  "relabel m l = (case m l of None \<Rightarrow> l | Some l' \<Rightarrow> l')"

definition rename_index ::
  "(index_label \<rightharpoonup> index_label) \<Rightarrow> (index_label \<times> int) list \<Rightarrow> (index_label \<times> int) list" where
  "rename_index m s = map (\<lambda>(l, c). (relabel m l, c)) s"

text \<open>The dictionary \<^verbatim>\<open>{1: 'Success', 0: 'Failure'}\<close>.\<close>

definition outcome_names :: "index_label \<rightharpoonup> index_label" where
  "outcome_names = [IntLabel 1 \<mapsto> StrLabel ''Success'', IntLabel 0 \<mapsto> StrLabel ''Failure'']"

text \<open>
  \<^verbatim>\<open>reindex(new_index, fill_value=...)\<close>: one entry per new label, with the value the series
  has at that label or the fill value. pandas raises \<^verbatim>\<open>ValueError\<close> when the series has a
  label twice.
\<close>

definition reindex ::
  "string list \<Rightarrow> int \<Rightarrow> (index_label \<times> int) list \<Rightarrow> error + (string \<times> int) list" where
  "reindex new_index fill_value s =
     (if distinct (map fst s)
      then Inr (map (\<lambda>l. (l, case map_of s (StrLabel l) of None \<Rightarrow> fill_value | Some c \<Rightarrow> c)) new_index)
      else Inl ValueError)"

definition update_pie_chart :: "dataframe \<Rightarrow> string \<Rightarrow> error + pie_figure" where
  "update_pie_chart spacex_df selected_site =
     (case
        (if selected_site = ''ALL''
         then Inr (px_pie (groupby_sum (rows spacex_df)) ''Launch Site'' ''class''
                     ''Total Successful Launches by Site'')
         else
           (let site_df = bool_index (rows spacex_df)
                            (series_eq (map Launch_Site (rows spacex_df)) selected_site);
                counts = rename_index outcome_names (value_counts (map class_col site_df))
            in case reindex [''Success'', ''Failure''] 0 counts of
                 Inl e \<Rightarrow> Inl e
               | Inr pie_df \<Rightarrow>
                   Inr (px_pie pie_df ''result'' ''count''
                          (''Success vs. Failure for site: '' @ selected_site))))
      of
        Inl e \<Rightarrow> Inl e
      | Inr fig \<Rightarrow>
          Inr (fig\<lparr>pie_textinfo := Some ''percent+label'',
                    pie_margin := [(''t'', 50), (''b'', 20), (''l'', 20), (''r'', 20)]\<rparr>))"

section \<open>The payload slider of the layout\<close>



section \<open>Notions the properties are stated with\<close>

text \<open>A row is in the selected payload range when its payload is a number between the bounds.\<close>

definition in_range :: "pyfloat \<Rightarrow> pyfloat \<Rightarrow> launch_row \<Rightarrow> bool" where
  "in_range low high r = (float_ge (Payload_Mass r) low \<and> float_le (Payload_Mass r) high)"

text \<open>What the callback returns on a two-element range: the data of the figure.\<close>

definition scatter_rows :: "dataframe \<Rightarrow> string \<Rightarrow> pyfloat \<Rightarrow> pyfloat \<Rightarrow> launch_row list" where
  "scatter_rows spacex_df selected_site low high =
     (if selected_site = ''ALL'' then filter (in_range low high) (rows spacex_df)
      else filter (\<lambda>r. Launch_Site r = selected_site) (filter (in_range low high) (rows spacex_df)))"

text \<open>A small table for concrete runs: three launches and one with a missing payload.\<close>

definition demo_df :: dataframe where
  "demo_df =
     \<lparr>columns = [''Launch Site'', ''Payload Mass (kg)'', ''class'', ''Booster Version''],
      rows = [\<lparr>Launch_Site = ''CCAFS'', Payload_Mass = Some 500, class_col = 1\<rparr>,
              \<lparr>Launch_Site = ''CCAFS'', Payload_Mass = Some 4000, class_col = 0\<rparr>,
              \<lparr>Launch_Site = ''KSC'', Payload_Mass = None, class_col = 1\<rparr>,
              \<lparr>Launch_Site = ''VAFB'', Payload_Mass = Some 2000, class_col = 1\<rparr>]\<rparr>"

text \<open>The label an outcome has after the renaming by \<open>outcome_names\<close>.\<close>

definition outcome_label :: "int \<Rightarrow> index_label" where
  "outcome_label v = (if v = 1 then StrLabel ''Success'' else if v = 0 then StrLabel ''Failure'' else IntLabel v)"

section \<open>Properties of the scatter callback\<close>

lemma bool_index_map: "bool_index xs (map P xs) = filter P xs"
  by (induction xs) (simp_all add: bool_index_def)

lemma series_and_map: "series_and (map P xs) (map Q xs) = map (\<lambda>x. P x \<and> Q x) xs"
  by (induction xs) (simp_all add: series_and_def)

lemma payload_mask:
  "bool_index rs (series_and (series_ge (map Payload_Mass rs) low) (series_le (map Payload_Mass rs) high))
     = filter (in_range low high) rs"
proof -
  have "series_and (series_ge (map Payload_Mass rs) low) (series_le (map Payload_Mass rs) high)
          = map (in_range low high) rs"
    by (induction rs) (simp_all add: series_and_def series_ge_def series_le_def in_range_def)
  then show ?thesis by (simp add: bool_index_map)
qed

lemma site_mask:
  "bool_index rs (series_eq (map Launch_Site rs) s) = filter (\<lambda>r. Launch_Site r = s) rs"
proof -
  have "series_eq (map Launch_Site rs) s = map (\<lambda>r. Launch_Site r = s) rs"
    by (simp add: series_eq_def)
  then show ?thesis by (simp add: bool_index_map)
qed

lemma scatter_unpacked:
  assumes "unpack_range spacex_df payload_range = Inr (low, high)"
  shows "\<exists>fig. update_scatter_chart spacex_df selected_site payload_range = Inr fig
           \<and> sc_data fig = scatter_rows spacex_df selected_site low high
           \<and> sc_color fig = (if truthy (color_column spacex_df) then color_column spacex_df else None)"
  using assms
  by (simp add: update_scatter_chart_def Let_def px_scatter_def payload_mask site_mask
        scatter_rows_def)

lemma set_dropna: "set (dropna col) = {v. Some v \<in> set col}"
  by (induction col) (auto simp: dropna_def split: option.splits)

lemma series_min_le:
  assumes "Some p \<in> set col"
  shows "\<exists>m. series_min col = Some m \<and> m \<le> p"
proof -
  from assms have mem: "p \<in> set (dropna col)" by (simp add: set_dropna)
  then obtain v vs where split: "dropna col = v # vs" by (cases "dropna col") auto
  have "fold min vs v = Min (set (v # vs))" by (simp only: Min.set_eq_fold)
  also have "\<dots> \<le> p" using mem split by (intro Min_le) simp_all
  finally show ?thesis by (simp add: series_min_def split)
qed

lemma series_max_ge:
  assumes "Some p \<in> set col"
  shows "\<exists>m. series_max col = Some m \<and> p \<le> m"
proof -
  from assms have mem: "p \<in> set (dropna col)" by (simp add: set_dropna)
  then obtain v vs where split: "dropna col = v # vs" by (cases "dropna col") auto
  have "fold max vs v = Max (set (v # vs))" by (simp only: Max.set_eq_fold)
  moreover have "p \<le> Max (set (v # vs))" using mem split by (intro Max_ge) simp_all
  ultimately show ?thesis by (simp add: series_max_def split)
qed

lemma in_range_full:
  assumes "r \<in> set (rows spacex_df)"
  shows "in_range (min_payload spacex_df) (max_payload spacex_df) r \<longleftrightarrow> Payload_Mass r \<noteq> None"
proof (cases "Payload_Mass r")
  case None
  then show ?thesis by (simp add: in_range_def float_ge_def)
next
  case (Some p)
  with assms have mem: "Some p \<in> set (map Payload_Mass (rows spacex_df))" by force
  from series_min_le [OF mem] series_max_ge [OF mem] Some show ?thesis
    by (auto simp: in_range_def float_ge_def float_le_def min_payload_def max_payload_def)
qed


lemma scatter_rows_filter:
  "scatter_rows spacex_df selected_site low high =
     filter (\<lambda>r. in_range low high r \<and> (selected_site = ''ALL'' \<or> Launch_Site r = selected_site))
       (rows spacex_df)"
  by (auto simp: scatter_rows_def intro: filter_cong)







text \<open>
  C9: when the range unpacks to \<open>(low, high)\<close>, the points of the figure are the rows of
  the table that pass the payload filter and, for a site other than \<^verbatim>\<open>'ALL'\<close>, the site
  filter, each as often as it stands in the table and in the table's order: the list
  \<open>filter\<close> gives, which is a subsequence of the table.
\<close>

theorem scatter_preserves_order:
  assumes "unpack_range spacex_df payload_range = Inr (low, high)"
  shows "\<exists>fig. update_scatter_chart spacex_df selected_site payload_range = Inr fig
           \<and> sc_data fig =
               filter (\<lambda>r. in_range low high r
                            \<and> (selected_site = ''ALL'' \<or> Launch_Site r = selected_site))
                 (rows spacex_df)
           \<and> subseq (sc_data fig) (rows spacex_df)"
proof -
  from scatter_unpacked [OF assms] obtain fig where
    fig: "update_scatter_chart spacex_df selected_site payload_range = Inr fig"
    and data: "sc_data fig = scatter_rows spacex_df selected_site low high"
    by blast
  have "subseq (sc_data fig) (rows spacex_df)"
    by (simp add: data scatter_rows_filter)
  with fig data show ?thesis by (simp add: scatter_rows_filter)
qed

theorem scatter_preserves_order_witness:
  "unpack_range demo_df (PyList [Some 1000, Some 5000]) = Inr (Some 1000, Some 5000)
   \<and> (\<exists>fig. update_scatter_chart demo_df ''ALL'' (PyList [Some 1000, Some 5000]) = Inr fig
         \<and> sc_data fig = [\<lparr>Launch_Site = ''CCAFS'', Payload_Mass = Some 4000, class_col = 0\<rparr>,
                          \<lparr>Launch_Site = ''VAFB'', Payload_Mass = Some 2000, class_col = 1\<rparr>])"
proof -
  have unpacked: "unpack_range demo_df (PyList [Some 1000, Some 5000]) = Inr (Some 1000, Some 5000)"
    by (simp add: unpack_range_def)
  from scatter_preserves_order [OF unpacked, of "''ALL''"] obtain fig where
    fig: "update_scatter_chart demo_df ''ALL'' (PyList [Some 1000, Some 5000]) = Inr fig"
    and data: "sc_data fig =
      filter (\<lambda>r. in_range (Some 1000) (Some 5000) r \<and> (''ALL'' = ''ALL'' \<or> Launch_Site r = ''ALL''))
        (rows demo_df)"
    by blast
  from data have "sc_data fig = [\<lparr>Launch_Site = ''CCAFS'', Payload_Mass = Some 4000, class_col = 0\<rparr>,
                                 \<lparr>Launch_Site = ''VAFB'', Payload_Mass = Some 2000, class_col = 1\<rparr>]"
    by (simp add: demo_df_def in_range_def float_ge_def float_le_def)
  with unpacked fig show ?thesis by blast
qed

text \<open>
  C8: when the range unpacks, the callback returns a figure whose colour attribute is
  \<^verbatim>\<open>'Booster Version Category'\<close> if the table has that column, else \<^verbatim>\<open>'Booster Version'\<close>
  if the table has that one, and otherwise none at all; the choice never raises.
\<close>

theorem scatter_color_precedence:
  assumes "unpack_range spacex_df payload_range = Inr (low, high)"
  shows "\<exists>fig. update_scatter_chart spacex_df selected_site payload_range = Inr fig
           \<and> sc_color fig =
               (if ''Booster Version Category'' \<in> set (columns spacex_df)
                then Some ''Booster Version Category''
                else if ''Booster Version'' \<in> set (columns spacex_df)
                then Some ''Booster Version''
                else None)"
proof -
  from scatter_unpacked [OF assms] obtain fig where
    fig: "update_scatter_chart spacex_df selected_site payload_range = Inr fig"
    and color: "sc_color fig = (if truthy (color_column spacex_df) then color_column spacex_df else None)"
    by blast
  from color have "sc_color fig = color_column spacex_df"
    by (simp add: truthy_def color_column_def)
  with fig show ?thesis by (simp add: color_column_def)
qed

theorem scatter_color_precedence_witness:
  "unpack_range demo_df (PyList [Some 0, Some 10000]) = Inr (Some 0, Some 10000)
   \<and> (\<exists>fig. update_scatter_chart demo_df ''ALL'' (PyList [Some 0, Some 10000]) = Inr fig
         \<and> sc_color fig = Some ''Booster Version'')
   \<and> (\<exists>fig. update_scatter_chart (demo_df\<lparr>columns := [''Launch Site'', ''Payload Mass (kg)'', ''class'']\<rparr>)
               ''ALL'' (PyList [Some 0, Some 10000]) = Inr fig
         \<and> sc_color fig = None)
   \<and> (\<exists>fig. update_scatter_chart
               (demo_df\<lparr>columns := [''Booster Version'', ''Booster Version Category'']\<rparr>)
               ''ALL'' (PyList [Some 0, Some 10000]) = Inr fig
         \<and> sc_color fig = Some ''Booster Version Category'')"
proof -
  have unpacked: "unpack_range df (PyList [Some 0, Some 10000]) = Inr (Some 0, Some 10000)" for df
    by (simp add: unpack_range_def)
  from scatter_color_precedence [OF unpacked, of demo_df "''ALL''"]
  have raw: "\<exists>fig. update_scatter_chart demo_df ''ALL'' (PyList [Some 0, Some 10000]) = Inr fig
               \<and> sc_color fig = Some ''Booster Version''"
    by (simp add: demo_df_def)
  from scatter_color_precedence [OF unpacked,
      of "demo_df\<lparr>columns := [''Launch Site'', ''Payload Mass (kg)'', ''class'']\<rparr>" "''ALL''"]
  have none: "\<exists>fig. update_scatter_chart
                 (demo_df\<lparr>columns := [''Launch Site'', ''Payload Mass (kg)'', ''class'']\<rparr>)
                 ''ALL'' (PyList [Some 0, Some 10000]) = Inr fig
               \<and> sc_color fig = None"
    by simp
  from scatter_color_precedence [OF unpacked,
      of "demo_df\<lparr>columns := [''Booster Version'', ''Booster Version Category'']\<rparr>" "''ALL''"]
  have cat: "\<exists>fig. update_scatter_chart
                 (demo_df\<lparr>columns := [''Booster Version'', ''Booster Version Category'']\<rparr>)
                 ''ALL'' (PyList [Some 0, Some 10000]) = Inr fig
               \<and> sc_color fig = Some ''Booster Version Category''"
    by simp
  from unpacked raw none cat show ?thesis by blast
qed

text \<open>
  C10: a range argument that is neither a list nor a tuple does not make the callback
  fail. The callback returns what it returns for the list of the table's two bounds,
  \<^verbatim>\<open>[min_payload, max_payload]\<close>, and the points of that figure are all rows of the selected
  site that have a payload.
\<close>

theorem scatter_range_fallback:
  "update_scatter_chart spacex_df selected_site PyOther =
     update_scatter_chart spacex_df selected_site
       (PyList [min_payload spacex_df, max_payload spacex_df])
   \<and> (\<exists>fig. update_scatter_chart spacex_df selected_site PyOther = Inr fig
         \<and> sc_data fig =
             filter (\<lambda>r. Payload_Mass r \<noteq> None
                          \<and> (selected_site = ''ALL'' \<or> Launch_Site r = selected_site))
               (rows spacex_df))"
proof -
  have unpacked: "unpack_range spacex_df PyOther = Inr (min_payload spacex_df, max_payload spacex_df)"
    by (simp add: unpack_range_def)
  have same: "update_scatter_chart spacex_df selected_site PyOther =
      update_scatter_chart spacex_df selected_site
        (PyList [min_payload spacex_df, max_payload spacex_df])"
    by (simp add: update_scatter_chart_def unpack_range_def)
  from scatter_unpacked [OF unpacked] obtain fig where
    fig: "update_scatter_chart spacex_df selected_site PyOther = Inr fig"
    and data: "sc_data fig =
      scatter_rows spacex_df selected_site (min_payload spacex_df) (max_payload spacex_df)"
    by blast
  have "sc_data fig =
      filter (\<lambda>r. Payload_Mass r \<noteq> None \<and> (selected_site = ''ALL'' \<or> Launch_Site r = selected_site))
        (rows spacex_df)"
    unfolding data scatter_rows_filter
    by (rule filter_cong) (simp_all add: in_range_full)
  with same fig show ?thesis by blast
qed

section \<open>Properties of the pie callback\<close>

subsection \<open>The branch of one site\<close>

lemma inj_outcome_label: "inj outcome_label"
  by (auto simp: inj_on_def outcome_label_def split: if_splits)

lemma rename_outcome: "relabel outcome_names (IntLabel v) = outcome_label v"
  by (simp add: relabel_def outcome_names_def outcome_label_def)

lemma distinct_map_sort_key: "distinct (map h (sort_key f zs)) = distinct (map h zs)"
  by (simp add: distinct_map)

lemma renamed_counts:
  "rename_index outcome_names (value_counts xs) =
     map (\<lambda>(l, c). (relabel outcome_names l, c))
       (sort_key (\<lambda>(l, c). - c) (map (\<lambda>v. (IntLabel v, int (count_list xs v))) (rev (remdups (rev xs)))))"
  by (simp add: rename_index_def value_counts_def)

lemma set_renamed_counts:
  "set (rename_index outcome_names (value_counts xs)) = (\<lambda>v. (outcome_label v, int (count_list xs v))) ` set xs"
  by (simp add: renamed_counts image_image rename_outcome)

lemma distinct_renamed_counts:
  "distinct (map fst (rename_index outcome_names (value_counts xs)))"
proof -
  have "distinct (map outcome_label (rev (remdups (rev xs))))"
    by (simp add: distinct_map inj_on_subset [OF inj_outcome_label])
  then show ?thesis
    by (simp add: renamed_counts distinct_map_sort_key comp_def case_prod_unfold rename_outcome)
qed

lemma lookup_renamed_counts:
  "(case map_of (rename_index outcome_names (value_counts xs)) (outcome_label v) of None \<Rightarrow> 0 | Some c \<Rightarrow> c)
     = int (count_list xs v)"
proof (cases "v \<in> set xs")
  case True
  then have "(outcome_label v, int (count_list xs v)) \<in> set (rename_index outcome_names (value_counts xs))"
    by (simp add: set_renamed_counts)
  then have "map_of (rename_index outcome_names (value_counts xs)) (outcome_label v) = Some (int (count_list xs v))"
    by (simp add: map_of_eq_Some_iff [OF distinct_renamed_counts])
  then show ?thesis by simp
next
  case False
  then have "outcome_label v \<notin> fst ` set (rename_index outcome_names (value_counts xs))"
    using inj_outcome_label by (auto simp: set_renamed_counts dest: injD)
  then have "map_of (rename_index outcome_names (value_counts xs)) (outcome_label v) = None"
    by (simp add: map_of_eq_None_iff)
  with False show ?thesis by (simp add: count_notin)
qed

lemma count_in_site:
  "int (count_list (map class_col (filter (\<lambda>r. Launch_Site r = s) rs)) v) =
     int (length (filter (\<lambda>r. Launch_Site r = s \<and> class_col r = v) rs))"
proof -
  have "filter ((=) v) (map class_col (filter (\<lambda>r. Launch_Site r = s) rs)) =
          map class_col (filter (\<lambda>r. Launch_Site r = s \<and> class_col r = v) rs)"
    by (induction rs) auto
  then show ?thesis by (simp add: count_list_eq_length_filter)
qed

lemma pie_site_counts:
  assumes "selected_site \<noteq> ''ALL''"
  shows "\<exists>fig. update_pie_chart spacex_df selected_site = Inr fig
           \<and> pie_frame fig =
               [(''Success'', int (length (filter (\<lambda>r. Launch_Site r = selected_site \<and> class_col r = 1) (rows spacex_df)))),
                (''Failure'', int (length (filter (\<lambda>r. Launch_Site r = selected_site \<and> class_col r = 0) (rows spacex_df))))]"
proof -
  have s: "StrLabel ''Success'' = outcome_label 1" and f: "StrLabel ''Failure'' = outcome_label 0"
    by (simp_all add: outcome_label_def)
  show ?thesis
    using assms
    by (simp add: update_pie_chart_def Let_def reindex_def distinct_renamed_counts px_pie_def
          site_mask s f lookup_renamed_counts count_in_site)
qed

lemma binary_split:
  assumes "\<forall>r \<in> set rs. class_col r = 0 \<or> class_col r = 1"
  shows "length (filter (\<lambda>r. P r \<and> class_col r = 1) rs) + length (filter (\<lambda>r. P r \<and> class_col r = 0) rs)
           = length (filter P rs)"
  using assms by (induction rs) auto

text \<open>
  C2: for a site that occurs in the table and is not the string \<^verbatim>\<open>'ALL'\<close> (which selects the
  other branch), the callback returns a figure whose frame is exactly the two rows
  \<open>(Success, succ)\<close> and \<open>(Failure, fail)\<close> in this order, where \<open>succ\<close> counts the rows of
  the site with class 1 and \<open>fail\<close> those with class 0, a count being 0 when there is no
  such row. When every class cell of the table is 0 or 1, as the data model has it, the two
  counts add up to the number of rows of the site.
\<close>

theorem pie_site_success_failure:
  assumes "selected_site \<noteq> ''ALL''"
    and "selected_site \<in> Launch_Site ` set (rows spacex_df)"
  shows "\<exists>fig succ fail. update_pie_chart spacex_df selected_site = Inr fig
           \<and> pie_frame fig = [(''Success'', succ), (''Failure'', fail)]
           \<and> succ = int (length (filter (\<lambda>r. Launch_Site r = selected_site \<and> class_col r = 1) (rows spacex_df)))
           \<and> fail = int (length (filter (\<lambda>r. Launch_Site r = selected_site \<and> class_col r = 0) (rows spacex_df)))
           \<and> ((\<forall>r \<in> set (rows spacex_df). class_col r = 0 \<or> class_col r = 1)
                \<longrightarrow> succ + fail = int (length (filter (\<lambda>r. Launch_Site r = selected_site) (rows spacex_df))))"
proof -
  from pie_site_counts [OF assms(1)] obtain fig where
    fig: "update_pie_chart spacex_df selected_site = Inr fig"
    and frame: "pie_frame fig =
      [(''Success'', int (length (filter (\<lambda>r. Launch_Site r = selected_site \<and> class_col r = 1) (rows spacex_df)))),
       (''Failure'', int (length (filter (\<lambda>r. Launch_Site r = selected_site \<and> class_col r = 0) (rows spacex_df))))]"
    by blast
  have "(\<forall>r \<in> set (rows spacex_df). class_col r = 0 \<or> class_col r = 1) \<longrightarrow>
      int (length (filter (\<lambda>r. Launch_Site r = selected_site \<and> class_col r = 1) (rows spacex_df)))
      + int (length (filter (\<lambda>r. Launch_Site r = selected_site \<and> class_col r = 0) (rows spacex_df)))
      = int (length (filter (\<lambda>r. Launch_Site r = selected_site) (rows spacex_df)))"
    using binary_split [of "rows spacex_df" "\<lambda>r. Launch_Site r = selected_site"] by auto
  with fig frame show ?thesis by blast
qed

theorem pie_site_success_failure_witness:
  "''CCAFS'' \<noteq> ''ALL'' \<and> ''CCAFS'' \<in> Launch_Site ` set (rows demo_df)
   \<and> list_all (\<lambda>r. class_col r = 0 \<or> class_col r = 1) (rows demo_df)
   \<and> (\<exists>fig. update_pie_chart demo_df ''CCAFS'' = Inr fig
         \<and> pie_frame fig = [(''Success'', 1), (''Failure'', 1)])"
proof -
  have site: "''CCAFS'' \<noteq> ''ALL''" by simp
  have present: "''CCAFS'' \<in> Launch_Site ` set (rows demo_df)" by (simp add: demo_df_def)
  have binary: "list_all (\<lambda>r. class_col r = 0 \<or> class_col r = 1) (rows demo_df)"
    by (simp add: demo_df_def)
  from pie_site_success_failure [OF site present] obtain fig succ fail where
    fig: "update_pie_chart demo_df ''CCAFS'' = Inr fig"
    and frame: "pie_frame fig = [(''Success'', succ), (''Failure'', fail)]"
    and succ: "succ = int (length (filter (\<lambda>r. Launch_Site r = ''CCAFS'' \<and> class_col r = 1) (rows demo_df)))"
    and fail: "fail = int (length (filter (\<lambda>r. Launch_Site r = ''CCAFS'' \<and> class_col r = 0) (rows demo_df)))"
    by blast
  from succ have "succ = 1" by (simp add: demo_df_def)
  moreover from fail have "fail = 1" by (simp add: demo_df_def)
  ultimately have "pie_frame fig = [(''Success'', 1), (''Failure'', 1)]" using frame by simp
  with site present binary fig show ?thesis by blast
qed

text \<open>
  C1, as amended: for a site that is neither \<^verbatim>\<open>'ALL'\<close> nor a site of the table, the pie
  callback returns a figure whose frame has the two rows \<open>(Success, 0)\<close> and \<open>(Failure, 0)\<close>,
  since \<^verbatim>\<open>reindex\<close> fills in both labels; the scatter callback returns a figure without
  points, for every range argument that unpacks. Neither raises.
\<close>

theorem unknown_site_results:
  assumes "selected_site \<noteq> ''ALL''"
    and "selected_site \<notin> Launch_Site ` set (rows spacex_df)"
    and "unpack_range spacex_df payload_range = Inr (low, high)"
  shows "(\<exists>fig. update_pie_chart spacex_df selected_site = Inr fig
            \<and> pie_frame fig = [(''Success'', 0), (''Failure'', 0)])
         \<and> (\<exists>fig. update_scatter_chart spacex_df selected_site payload_range = Inr fig
              \<and> sc_data fig = [])"
proof -
  from assms(2) have none: "filter (\<lambda>r. Launch_Site r = selected_site \<and> P r) (rows spacex_df) = []" for P
    by (auto simp: filter_empty_conv)
  from pie_site_counts [OF assms(1), of spacex_df]
  have pie: "\<exists>fig. update_pie_chart spacex_df selected_site = Inr fig
               \<and> pie_frame fig = [(''Success'', 0), (''Failure'', 0)]"
    by (simp add: none)
  from scatter_unpacked [OF assms(3)] obtain fig where
    fig: "update_scatter_chart spacex_df selected_site payload_range = Inr fig"
    and data: "sc_data fig = scatter_rows spacex_df selected_site low high"
    by blast
  from assms(1,2) have "sc_data fig = []"
    by (auto simp: data scatter_rows_def filter_empty_conv)
  with fig pie show ?thesis by blast
qed

theorem unknown_site_results_witness:
  "''LC-39A'' \<noteq> ''ALL'' \<and> ''LC-39A'' \<notin> Launch_Site ` set (rows demo_df)
   \<and> unpack_range demo_df (PyList [Some 0, Some 10000]) = Inr (Some 0, Some 10000)
   \<and> (\<exists>fig. update_pie_chart demo_df ''LC-39A'' = Inr fig
         \<and> pie_frame fig = [(''Success'', 0), (''Failure'', 0)])
   \<and> (\<exists>fig. update_scatter_chart demo_df ''LC-39A'' (PyList [Some 0, Some 10000]) = Inr fig
         \<and> sc_data fig = [])"
proof -
  have site: "''LC-39A'' \<noteq> ''ALL''" by simp
  have absent: "''LC-39A'' \<notin> Launch_Site ` set (rows demo_df)" by (simp add: demo_df_def)
  have unpacked: "unpack_range demo_df (PyList [Some 0, Some 10000]) = Inr (Some 0, Some 10000)"
    by (simp add: unpack_range_def)
  from unknown_site_results [OF site absent unpacked] site absent unpacked show ?thesis by blast
qed

text \<open>The claim as it was stated asks for an empty frame; the table of the demo refutes it.\<close>

theorem unknown_site_counterexample:
  "''LC-39A'' \<noteq> ''ALL'' \<and> ''LC-39A'' \<notin> Launch_Site ` set (rows demo_df)
   \<and> update_pie_chart demo_df ''LC-39A'' =
       Inr \<lparr>pie_frame = [(''Success'', 0), (''Failure'', 0)], pie_names = ''result'',
            pie_values = ''count'', pie_title = ''Success vs. Failure for site: LC-39A'',
            pie_textinfo = Some ''percent+label'',
            pie_margin = [(''t'', 50), (''b'', 20), (''l'', 20), (''r'', 20)]\<rparr>
   \<and> \<not> (\<exists>fig. update_pie_chart demo_df ''LC-39A'' = Inr fig \<and> pie_frame fig = [])"
  by (simp add: update_pie_chart_def Let_def demo_df_def series_eq_def bool_index_def
        value_counts_def rename_index_def reindex_def px_pie_def)

subsection \<open>The branch of all sites\<close>







section \<open>Properties of the payload slider\<close>






end
